theory Spec2Isabelle
  imports Complex_Main "HOL-Library.AList"
begin

section \<open>Python strings and the string operations the scanner uses\<close>

text \<open>
  A Python \<open>str\<close> is a sequence of Unicode code points. It is modelled as the list of
  its code points, so that \<open>str.strip()\<close> can follow Python's own whitespace table
  (which has members beyond Latin-1). \<open>py\<close> turns an ASCII literal into such a string.
\<close>

type_synonym pystr = "nat list"

definition py :: "string \<Rightarrow> pystr" where
  "py s = map of_char s"

definition newline :: nat where
  "newline = 10"

text \<open>
  \<open>str.isspace\<close> on one code point: the code points whose bidirectional class is
  WS, B or S, or whose category is Zs (CPython's \<open>_PyUnicode_IsWhitespace\<close>).
\<close>

definition isspace :: "nat \<Rightarrow> bool" where
  "isspace c \<longleftrightarrow>
     (9 \<le> c \<and> c \<le> 13) \<or> (28 \<le> c \<and> c \<le> 32) \<or> c = 133 \<or> c = 160 \<or>
     c = 5760 \<or> (8192 \<le> c \<and> c \<le> 8202) \<or> c = 8232 \<or> c = 8233 \<or>
     c = 8239 \<or> c = 8287 \<or> c = 12288"

text \<open>\<open>s.strip()\<close>: leading and trailing whitespace removed.\<close>

definition py_strip :: "pystr \<Rightarrow> pystr" where
  "py_strip s = rev (dropWhile isspace (rev (dropWhile isspace s)))"

text \<open>\<open>s.startswith(p)\<close>.\<close>

definition startswith :: "pystr \<Rightarrow> pystr \<Rightarrow> bool" where
  "startswith s p \<longleftrightarrow> take (length p) s = p"

text \<open>
  \<open>s.split(c)\<close> for a one-character separator: the pieces between the occurrences of
  \<open>c\<close>; the empty string gives one empty piece.
\<close>

fun py_split :: "nat \<Rightarrow> pystr \<Rightarrow> pystr list" where
  "py_split c [] = [[]]"
| "py_split c (x # xs) =
     (if x = c then [] # py_split c xs
      else (case py_split c xs of
              [] \<Rightarrow> [[x]]
            | l # ls \<Rightarrow> (x # l) # ls))"

text \<open>\<open>sep.join(xs)\<close>: the separator goes before every item but the first.\<close>

definition py_join :: "pystr \<Rightarrow> pystr list \<Rightarrow> pystr" where
  "py_join sep xs =
     (case xs of
        [] \<Rightarrow> []
      | x # rest \<Rightarrow> foldl (\<lambda>acc y. acc @ sep @ y) x rest)"

text \<open>
  Python slicing \<open>xs[start:stop]\<close> with step 1: a negative index counts from the end,
  and every index is clamped to the range of the sequence, so that a slice never raises.
\<close>

definition slice_index :: "int \<Rightarrow> nat \<Rightarrow> nat" where
  "slice_index i n = (if i < 0 then nat (max 0 (int n + i)) else min (nat i) n)"

definition py_slice :: "'a list \<Rightarrow> int option \<Rightarrow> int option \<Rightarrow> 'a list" where
  "py_slice xs start stop =
     (let n = length xs;
          a = (case start of None \<Rightarrow> 0 | Some i \<Rightarrow> slice_index i n);
          b = (case stop of None \<Rightarrow> n | Some j \<Rightarrow> slice_index j n)
      in take (b - a) (drop a xs))"


section \<open>Post-processing of the model's completion\<close>

text \<open>
  Lines 113 to 120 of \<open>parse_invoice_to_json\<close>: the completion is stripped; when it
  starts with three backticks and has more than two lines, the first and the last line
  go; when the text then starts with \<open>json\<close>, these four characters go and the text is
  stripped again.
\<close>

definition postprocess :: "pystr \<Rightarrow> pystr" where
  "postprocess content =
     (let json_text = py_strip content in
      if startswith json_text (py ''```'') then
        (let lines = py_split newline json_text;
             json_text =
               (if length lines > 2
                then py_join [newline] (py_slice lines (Some 1) (Some (- 1)))
                else json_text)
         in if startswith json_text (py ''json'')
            then py_strip (py_slice json_text (Some 4) None)
            else json_text)
      else json_text)"


section \<open>Exceptions\<close>

text \<open>
  An exception is modelled by its class and by the text \<open>str(e)\<close> that the handlers
  interpolate into their messages. Every class below is a subclass of \<open>Exception\<close>;
  \<open>JSONDecodeError\<close> is the only one that an \<open>except json.JSONDecodeError\<close> clause
  catches and \<open>FileNotFoundError\<close> the only one that \<open>except FileNotFoundError\<close>
  catches. The exceptions of the client of the remote service form a hierarchy of their
  own below \<open>Exception\<close> (\<open>openai.APIError\<close>: network, authentication, quota and the
  other failures of a call).
\<close>

datatype openai_error =
    APIConnectionError
  | APITimeoutError
  | AuthenticationError
  | PermissionDeniedError
  | RateLimitError
  | BadRequestError
  | NotFoundError
  | InternalServerError
  | APIResponseValidationError

datatype exn_class =
    Exception
  | ValueError
  | JSONDecodeError
  | FileNotFoundError
  | OSError
  | AttributeError
  | IndexError
  | RecursionError
  | OpenAIError openai_error

datatype exn = Exn (cls: exn_class) (msg: pystr)


section \<open>JSON values and a reference decoder\<close>

text \<open>
  The values \<open>json.loads\<close> builds: \<open>None\<close>, booleans, integers, floats, strings, lists
  and dictionaries with string keys. A float is kept as the text of its literal; a
  dictionary keeps its keys in insertion order.
\<close>

datatype json =
    JNull
  | JBool bool
  | JInt int
  | JFloat pystr
  | JStr pystr
  | JArr "json list"
  | JObj "(pystr \<times> json) list"


definition ch :: "char \<Rightarrow> nat" where
  "ch c = of_char c"

definition decode_error :: "string \<Rightarrow> exn" where
  "decode_error m = Exn JSONDecodeError (py m)"

definition isdigit :: "nat \<Rightarrow> bool" where
  "isdigit c \<longleftrightarrow> 48 \<le> c \<and> c \<le> 57"

definition skip_ws :: "pystr \<Rightarrow> pystr" where
  "skip_ws s = dropWhile (\<lambda>c. c = 32 \<or> c = 9 \<or> c = 10 \<or> c = 13) s"

definition digits_value :: "pystr \<Rightarrow> int" where
  "digits_value ds = foldl (\<lambda>a d. 10 * a + (int d - 48)) 0 ds"

text \<open>
  A number literal: an optional minus sign, \<open>0\<close> or a digit sequence without leading
  zero (\<open>int_part\<close>, empty when there is no digit), an optional fraction and an
  optional exponent (each taken only when complete). The result is an integer when
  there is neither fraction nor exponent.
\<close>

definition int_part :: "pystr \<Rightarrow> pystr" where
  "int_part s =
     (case s of
        [] \<Rightarrow> []
      | d # _ \<Rightarrow> if d = ch CHR ''0'' then [d] else takeWhile isdigit s)"

definition frac_part :: "pystr \<Rightarrow> pystr" where
  "frac_part s =
     (case s of
        d # e # _ \<Rightarrow>
          if d = ch CHR ''.'' \<and> isdigit e then d # takeWhile isdigit (tl s) else []
      | _ \<Rightarrow> [])"

definition exp_part :: "pystr \<Rightarrow> pystr" where
  "exp_part s =
     (case s of
        [] \<Rightarrow> []
      | e # s' \<Rightarrow>
          if e = ch CHR ''e'' \<or> e = ch CHR ''E'' then
            (let sgn = (case s' of
                          [] \<Rightarrow> []
                        | x # _ \<Rightarrow> if x = ch CHR ''+'' \<or> x = ch CHR ''-'' then [x] else []);
                 ds = takeWhile isdigit (drop (length sgn) s')
             in if ds = [] then [] else e # sgn @ ds)
          else [])"

definition match_number :: "pystr \<Rightarrow> (json \<times> pystr) option" where
  "match_number s =
     (let neg = (case s of [] \<Rightarrow> False | c # _ \<Rightarrow> c = ch CHR ''-'');
          s1 = (if neg then tl s else s);
          ip = int_part s1
      in if ip = [] then None
         else
           (let s2 = drop (length ip) s1;
                frac = frac_part s2;
                s3 = drop (length frac) s2;
                ex = exp_part s3;
                rest = drop (length ex) s3
            in if frac = [] \<and> ex = []
               then Some (JInt ((if neg then - 1 else 1) * digits_value ip), rest)
               else Some (JFloat ((if neg then [ch CHR ''-''] else []) @ ip @ frac @ ex), rest)))"

definition hex_value :: "nat \<Rightarrow> nat option" where
  "hex_value c =
     (if 48 \<le> c \<and> c \<le> 57 then Some (c - 48)
      else if 97 \<le> c \<and> c \<le> 102 then Some (c - 87)
      else if 65 \<le> c \<and> c \<le> 70 then Some (c - 55)
      else None)"

text \<open>The four hexadecimal digits of a \<open>\uXXXX\<close> escape.\<close>

definition decode_uXXXX :: "pystr \<Rightarrow> nat option" where
  "decode_uXXXX s =
     (case s of
        a # b # c # d # _ \<Rightarrow>
          (case (hex_value a, hex_value b, hex_value c, hex_value d) of
             (Some x, Some y, Some z, Some w) \<Rightarrow> Some (((x * 16 + y) * 16 + z) * 16 + w)
           | _ \<Rightarrow> None)
      | _ \<Rightarrow> None)"

definition backslash :: "nat \<Rightarrow> nat option" where
  \<open>backslash e =
     (if e = ch CHR ''"'' then Some 34
      else if e = 92 then Some 92
      else if e = ch CHR ''/'' then Some 47
      else if e = ch CHR ''b'' then Some 8
      else if e = ch CHR ''f'' then Some 12
      else if e = ch CHR ''n'' then Some 10
      else if e = ch CHR ''r'' then Some 13
      else if e = ch CHR ''t'' then Some 9
      else None)\<close>

text \<open>
  The body of a string literal, after its opening quote, up to the closing quote:
  escapes are decoded, a surrogate pair of two \<open>\u\<close> escapes becomes one code point,
  and a control character is refused (strict mode).
\<close>

function scanstring :: "pystr \<Rightarrow> pystr \<Rightarrow> exn + (pystr \<times> pystr)" where
  "scanstring acc [] = Inl (decode_error ''Unterminated string starting at'')"
| "scanstring acc (c # s) =
     (if c = 34 then Inr (acc, s)
      else if c = 92 then
        (case s of
           [] \<Rightarrow> Inl (decode_error ''Unterminated string starting at'')
         | e # s' \<Rightarrow>
             if e = ch CHR ''u'' then
               (case decode_uXXXX s' of
                  None \<Rightarrow> Inl (decode_error ''Invalid unicode escape'')
                | Some uni \<Rightarrow>
                    if 55296 \<le> uni \<and> uni \<le> 56319 \<and>
                       take 2 (drop 4 s') = [92, ch CHR ''u'']
                    then
                      (case decode_uXXXX (drop 6 s') of
                         None \<Rightarrow> Inl (decode_error ''Invalid unicode escape'')
                       | Some uni2 \<Rightarrow>
                           if 56320 \<le> uni2 \<and> uni2 \<le> 57343
                           then scanstring
                                  (acc @ [65536 + ((uni - 55296) * 1024 + (uni2 - 56320))])
                                  (drop 10 s')
                           else scanstring (acc @ [uni]) (drop 4 s'))
                    else scanstring (acc @ [uni]) (drop 4 s'))
             else
               (case backslash e of
                  None \<Rightarrow> Inl (decode_error ''Invalid escape'')
                | Some x \<Rightarrow> scanstring (acc @ [x]) s'))
      else if c < 32 then Inl (decode_error ''Invalid control character at'')
      else scanstring (acc @ [c]) s)"
  by pat_completeness auto
termination
  by (relation "measure (\<lambda>(acc, s). length s)") auto


text \<open>
  The scanner proper. \<open>scan_once\<close> reads one value at the head of the text,
  \<open>parse_array\<close> the elements of a list after its opening bracket and \<open>parse_object\<close>
  the members of a dictionary, each starting at the quote of a key; a later member with
  a key already present replaces the value and keeps the place of the key. The first
  argument bounds the number of nested calls, which makes the three functions total; a
  run that reaches the bound ends with \<open>RecursionError\<close>.
\<close>

fun scan_once :: "nat \<Rightarrow> pystr \<Rightarrow> exn + (json \<times> pystr)"
  and parse_array :: "nat \<Rightarrow> json list \<Rightarrow> pystr \<Rightarrow> exn + (json \<times> pystr)"
  and parse_object :: "nat \<Rightarrow> (pystr \<times> json) list \<Rightarrow> pystr \<Rightarrow> exn + (json \<times> pystr)"
  where
  "scan_once 0 s = Inl (Exn RecursionError (py ''maximum recursion depth exceeded''))"
| "scan_once (Suc f) s =
     (case s of
        [] \<Rightarrow> Inl (decode_error ''Expecting value'')
      | c # r \<Rightarrow>
          if c = 34 then
            (case scanstring [] r of
               Inl e \<Rightarrow> Inl e
             | Inr (str, r') \<Rightarrow> Inr (JStr str, r'))
          else if c = ch CHR ''{'' then
            (case skip_ws r of
               [] \<Rightarrow> Inl (decode_error ''Expecting property name enclosed in double quotes'')
             | d # r' \<Rightarrow>
                 if d = ch CHR ''}'' then Inr (JObj [], r')
                 else parse_object f [] (d # r'))
          else if c = ch CHR ''['' then
            (case skip_ws r of
               [] \<Rightarrow> Inl (decode_error ''Expecting value'')
             | d # r' \<Rightarrow>
                 if d = ch CHR '']'' then Inr (JArr [], r')
                 else parse_array f [] (d # r'))
          else if startswith s (py ''null'') then Inr (JNull, drop 4 s)
          else if startswith s (py ''true'') then Inr (JBool True, drop 4 s)
          else if startswith s (py ''false'') then Inr (JBool False, drop 5 s)
          else if startswith s (py ''NaN'') then Inr (JFloat (py ''NaN''), drop 3 s)
          else if startswith s (py ''Infinity'')
            then Inr (JFloat (py ''Infinity''), drop 8 s)
          else if startswith s (py ''-Infinity'')
            then Inr (JFloat (py ''-Infinity''), drop 9 s)
          else
            (case match_number s of
               None \<Rightarrow> Inl (decode_error ''Expecting value'')
             | Some (v, r') \<Rightarrow> Inr (v, r')))"
| "parse_array 0 acc s = Inl (Exn RecursionError (py ''maximum recursion depth exceeded''))"
| "parse_array (Suc f) acc s =
     (case scan_once f s of
        Inl e \<Rightarrow> Inl e
      | Inr (v, r) \<Rightarrow>
          (case skip_ws r of
             [] \<Rightarrow> Inl (decode_error ''Expecting , delimiter'')
           | d # r' \<Rightarrow>
               if d = ch CHR '']'' then Inr (JArr (acc @ [v]), r')
               else if d = ch CHR '','' then parse_array f (acc @ [v]) (skip_ws r')
               else Inl (decode_error ''Expecting , delimiter'')))"
| "parse_object 0 acc s = Inl (Exn RecursionError (py ''maximum recursion depth exceeded''))"
| "parse_object (Suc f) acc s =
     (case s of
        [] \<Rightarrow> Inl (decode_error ''Expecting property name enclosed in double quotes'')
      | q # r \<Rightarrow>
          if q \<noteq> 34
          then Inl (decode_error ''Expecting property name enclosed in double quotes'')
          else
            (case scanstring [] r of
               Inl e \<Rightarrow> Inl e
             | Inr (key, r1) \<Rightarrow>
                 (case skip_ws r1 of
                    [] \<Rightarrow> Inl (decode_error ''Expecting : delimiter'')
                  | d # r2 \<Rightarrow>
                      if d \<noteq> ch CHR '':'' then Inl (decode_error ''Expecting : delimiter'')
                      else
                        (case scan_once f (skip_ws r2) of
                           Inl e \<Rightarrow> Inl e
                         | Inr (v, r3) \<Rightarrow>
                             (case skip_ws r3 of
                                [] \<Rightarrow> Inl (decode_error ''Expecting , delimiter'')
                              | x # r4 \<Rightarrow>
                                  if x = ch CHR ''}''
                                  then Inr (JObj (AList.update key v acc), r4)
                                  else if x = ch CHR '',''
                                  then parse_object f (AList.update key v acc) (skip_ws r4)
                                  else Inl (decode_error ''Expecting , delimiter''))))))"

text \<open>
  \<open>json.loads\<close>: one value, with whitespace allowed around it and nothing else after
  it. Each second nested call of the scanner consumes a character, so the bound given
  here leaves room for every text (lemma \<open>json_loads_error_class\<close> below). The message
  of a decoding error is only its kind: the position that Python appends is not
  modelled.
\<close>

definition json_loads :: "pystr \<Rightarrow> exn + json" where
  "json_loads s =
     (if startswith s [65279] then Inl (decode_error ''Unexpected UTF-8 BOM'')
      else
        (case scan_once (2 * length s + 2) (skip_ws s) of
           Inl e \<Rightarrow> Inl e
         | Inr (v, r) \<Rightarrow>
             if skip_ws r = [] then Inr v else Inl (decode_error ''Extra data'')))"


text \<open>
  A result of a scanning function on the text \<open>s\<close> is well-behaved when it is a
  decoding error or a value together with a rest shorter than \<open>s\<close>.
\<close>

definition consumed :: "pystr \<Rightarrow> exn + ('a \<times> pystr) \<Rightarrow> bool" where
  "consumed s res =
     (case res of Inl e \<Rightarrow> cls e = JSONDecodeError | Inr (v, r) \<Rightarrow> length r < length s)"


section \<open>The world outside the program\<close>

text \<open>
  What the program reads from and sends to its environment is a parameter of the model:
  the file system, the process environment and the \<open>.env\<close> file, the PDF library, the
  remote chat-completion service, the JSON library and the output file. A page of a
  PDF is what \<open>extract_text()\<close> gives on it, a text or an exception. A call of the
  service (made with the key of the client) gives a response or fails with one of the
  client's exceptions and its message.
\<close>

record request =
  model :: pystr
  messages :: "(pystr \<times> pystr) list"
  temperature :: rat
  max_tokens :: nat

text \<open>
  A completion: the list \<open>choices\<close>, each choice with its \<open>message.content\<close>, which
  the service may leave as \<open>None\<close>.
\<close>

record response =
  choices :: "pystr option list"

type_synonym page = "exn + pystr"

record world =
  isfile :: "pystr \<Rightarrow> bool"
  environ :: "pystr \<rightharpoonup> pystr"
  dotenv :: "pystr \<rightharpoonup> pystr"
  pdf_reader :: "pystr \<Rightarrow> exn + page list"
  create :: "pystr \<Rightarrow> request \<Rightarrow> (openai_error \<times> pystr) + response"
  loads :: "pystr \<Rightarrow> exn + json"
  dumps :: "json \<Rightarrow> nat option \<Rightarrow> bool \<Rightarrow> pystr"
  write_text :: "pystr \<Rightarrow> pystr \<Rightarrow> exn option"

text \<open>
  The effects of a run, in the order they happen. \<open>RemoteCall\<close> is one request sent to
  the service, \<open>OpenFile\<close> one attempt to open and read the PDF.
\<close>

datatype event =
    Print pystr
  | PrintErr pystr
  | LoadDotenv
  | NewClient pystr
  | OpenFile pystr
  | RemoteCall request
  | WriteFile pystr pystr

fun is_remote_call :: "event \<Rightarrow> bool" where
  "is_remote_call (RemoteCall _) = True"
| "is_remote_call _ = False"

fun is_open_file :: "event \<Rightarrow> bool" where
  "is_open_file (OpenFile _) = True"
| "is_open_file _ = False"

definition remote_calls :: "event list \<Rightarrow> nat" where
  "remote_calls evs = length (filter is_remote_call evs)"

definition extractions :: "event list \<Rightarrow> nat" where
  "extractions evs = length (filter is_open_file evs)"


section \<open>The scanner\<close>

subsection \<open>Construction\<close>

text \<open>
  \<open>load_dotenv()\<close> adds the variables of the \<open>.env\<close> file that the process environment
  does not define yet.
\<close>

definition load_dotenv :: "(pystr \<rightharpoonup> pystr) \<Rightarrow> (pystr \<rightharpoonup> pystr) \<Rightarrow> (pystr \<rightharpoonup> pystr)" where
  "load_dotenv file env = file ++ env"

text \<open>Truth value of an optional string: \<open>None\<close> and the empty string are false.\<close>

fun truthy :: "pystr option \<Rightarrow> bool" where
  "truthy None = False"
| "truthy (Some s) = (s \<noteq> [])"

text \<open>Python's \<open>a or b\<close>.\<close>

definition py_or :: "pystr option \<Rightarrow> pystr option \<Rightarrow> pystr option" where
  "py_or a b = (if truthy a then a else b)"

record scanner =
  self_api_key :: pystr

definition key_not_found :: exn where
  "key_not_found =
     Exn ValueError
       (py ''OpenAI API key not found. '' @
        py ''Please set OPENAI_API_KEY environment variable or provide it as argument.'')"

text \<open>
  \<open>PDFInvoiceScanner.__init__\<close>: the key is the argument or else the variable
  \<open>OPENAI_API_KEY\<close> of the environment after \<open>load_dotenv()\<close>; without a key the
  constructor raises before it creates the client.
\<close>

definition init :: "world \<Rightarrow> pystr option \<Rightarrow> (exn + scanner) \<times> event list" where
  "init w api_key =
     (let env = load_dotenv (dotenv w) (environ w);
          key = py_or api_key (env (py ''OPENAI_API_KEY''))
      in case key of
           None \<Rightarrow> (Inl key_not_found, [LoadDotenv])
         | Some k \<Rightarrow>
             if k = [] then (Inl key_not_found, [LoadDotenv])
             else (Inr \<lparr>self_api_key = k\<rparr>, [LoadDotenv, NewClient k]))"

subsection \<open>Text extraction\<close>

text \<open>The loop over the pages: the text of each page is appended, in page order.\<close>

fun extract_pages :: "page list \<Rightarrow> pystr list \<Rightarrow> exn + pystr list" where
  "extract_pages [] text_content = Inr text_content"
| "extract_pages (p # ps) text_content =
     (case p of
        Inl e \<Rightarrow> Inl e
      | Inr t \<Rightarrow> extract_pages ps (text_content @ [t]))"

text \<open>The two \<open>except\<close> clauses of \<open>extract_text_from_pdf\<close>.\<close>

definition extract_handler :: "pystr \<Rightarrow> exn \<Rightarrow> exn" where
  "extract_handler pdf_path e =
     (if cls e = FileNotFoundError
      then Exn FileNotFoundError (py ''PDF file not found: '' @ pdf_path)
      else Exn Exception (py ''Error extracting text from PDF: '' @ msg e))"

definition extract_text_from_pdf :: "world \<Rightarrow> pystr \<Rightarrow> (exn + pystr) \<times> event list" where
  "extract_text_from_pdf w pdf_path =
     ((case pdf_reader w pdf_path of
         Inl e \<Rightarrow> Inl (extract_handler pdf_path e)
       | Inr pages \<Rightarrow>
           (case extract_pages pages [] of
              Inl e \<Rightarrow> Inl (extract_handler pdf_path e)
            | Inr text_content \<Rightarrow> Inr (py_join [newline, newline] text_content))),
      [OpenFile pdf_path])"


subsection \<open>Structured extraction\<close>

definition prompt :: "pystr \<Rightarrow> pystr" where
  "prompt pdf_text =
     py ''Analiza la siguiente factura y extrae la informaci'' @ [243] @
     py ''n estructurada en formato JSON.\<newline>'' @
     py ''Incluye los siguientes campos si est'' @ [225] @ py ''n disponibles:\<newline>'' @
     py ''- numero_factura: n'' @ [250] @ py ''mero de la factura\<newline>'' @
     py ''- fecha: fecha de emisi'' @ [243] @ py ''n\<newline>'' @
     py ''- vendedor: informaci'' @ [243] @ py ''n del vendedor (nombre, direcci'' @ [243] @
     py ''n, CIF/NIF)\<newline>'' @
     py ''- cliente: informaci'' @ [243] @ py ''n del cliente (nombre, direcci'' @ [243] @
     py ''n, CIF/NIF)\<newline>'' @
     py ''- items: lista de productos/servicios con descripci'' @ [243] @
     py ''n, cantidad, precio_unitario, y total\<newline>'' @
     py ''- subtotal: subtotal antes de impuestos\<newline>'' @
     py ''- impuestos: informaci'' @ [243] @
     py ''n de impuestos (tipo, porcentaje, monto)\<newline>'' @
     py ''- total: monto total de la factura\<newline>'' @
     py ''- metodo_pago: m'' @ [233] @ py ''todo de pago si est'' @ [225] @
     py '' disponible\<newline>'' @
     py ''- notas: cualquier nota o informaci'' @ [243] @ py ''n adicional\<newline>'' @
     py ''\<newline>'' @
     py ''Texto de la factura:\<newline>'' @
     pdf_text @
     py ''\<newline>'' @
     py ''\<newline>'' @
     py ''Responde '' @ [218] @
     py ''NICAMENTE con el JSON estructurado, sin texto adicional.''"

definition system_message :: pystr where
  "system_message =
     py ''Eres un asistente experto en procesar facturas y extraer datos estructurados. '' @
     py ''Respondes '' @ [250] @ py ''nicamente con JSON v'' @ [225] @ py ''lido.''"

definition completion_request :: "pystr \<Rightarrow> request" where
  "completion_request pdf_text =
     \<lparr>model = py ''gpt-3.5-turbo'',
      messages = [(py ''system'', system_message), (py ''user'', prompt pdf_text)],
      temperature = 1 / 10,
      max_tokens = 2000\<rparr>"

text \<open>
  The two \<open>except\<close> clauses of \<open>parse_invoice_to_json\<close>, in their order: a
  \<open>JSONDecodeError\<close> becomes a \<open>ValueError\<close>, any other exception an \<open>Exception\<close>
  that blames the call of the service.
\<close>

definition parse_handler :: "exn \<Rightarrow> exn" where
  "parse_handler e =
     (if cls e = JSONDecodeError
      then Exn ValueError (py ''Error parsing JSON from OpenAI response: '' @ msg e)
      else Exn Exception (py ''Error calling OpenAI API: '' @ msg e))"

definition none_has_no_strip :: pystr where
  "none_has_no_strip =
     [39] @ py ''NoneType'' @ [39] @ py '' object has no attribute '' @ [39] @ py ''strip'' @ [39]"

text \<open>
  \<open>parse_invoice_to_json\<close>: one request; of the response the first choice is read
  (\<open>IndexError\<close> when there is none), its content is stripped (\<open>AttributeError\<close> when
  it is \<open>None\<close>), post-processed and handed to \<open>json.loads\<close>, and whatever that returns
  is returned. Every exception on the way goes through the handler above.
\<close>

definition parse_invoice_to_json ::
  "world \<Rightarrow> scanner \<Rightarrow> pystr \<Rightarrow> (exn + json) \<times> event list" where
  "parse_invoice_to_json w self pdf_text =
     (let req = completion_request pdf_text;
          r = (case create w (self_api_key self) req of
                 Inl (err, m) \<Rightarrow> Inl (Exn (OpenAIError err) m)
               | Inr resp \<Rightarrow>
                   (case choices resp of
                      [] \<Rightarrow> Inl (Exn IndexError (py ''list index out of range''))
                    | c # _ \<Rightarrow>
                        (case c of
                           None \<Rightarrow> Inl (Exn AttributeError none_has_no_strip)
                         | Some content \<Rightarrow> loads w (postprocess content))))
      in ((case r of Inl e \<Rightarrow> Inl (parse_handler e) | Inr v \<Rightarrow> Inr v),
          [RemoteCall req]))"

subsection \<open>The scan operation\<close>

definition no_text :: exn where
  "no_text = Exn ValueError (py ''No text could be extracted from the PDF file'')"

definition scan_invoice ::
  "world \<Rightarrow> scanner \<Rightarrow> pystr \<Rightarrow> (exn + json) \<times> event list" where
  "scan_invoice w self pdf_path =
     (let ev0 = [Print (py ''Extracting text from PDF: '' @ pdf_path)];
          (r1, ev1) = extract_text_from_pdf w pdf_path
      in case r1 of
           Inl e \<Rightarrow> (Inl e, ev0 @ ev1)
         | Inr pdf_text \<Rightarrow>
             if py_strip pdf_text = [] then (Inl no_text, ev0 @ ev1)
             else
               (let (r2, ev2) = parse_invoice_to_json w self pdf_text
                in (r2, ev0 @ ev1 @ [Print (py ''Parsing invoice with OpenAI...'')] @ ev2)))"


section \<open>The command line\<close>

record args =
  pdf_file :: pystr
  "output" :: "pystr option"
  pretty :: bool
  api_key :: "pystr option"

text \<open>
  The \<open>try\<close> block of \<open>main\<close>: construct the scanner, scan, serialise (indent 2 with
  \<open>--pretty\<close>, \<open>ensure_ascii=False\<close>), then write the file named by \<open>--output\<close> or
  print the banner and the JSON.
\<close>

definition main_try :: "world \<Rightarrow> args \<Rightarrow> (exn + unit) \<times> event list" where
  "main_try w a =
     (case init w (api_key a) of
        (Inl e, ev1) \<Rightarrow> (Inl e, ev1)
      | (Inr scanner, ev1) \<Rightarrow>
          (case scan_invoice w scanner (pdf_file a) of
             (Inl e, ev2) \<Rightarrow> (Inl e, ev1 @ ev2)
           | (Inr invoice_data, ev2) \<Rightarrow>
               (let indent = (if pretty a then Some 2 else None);
                    json_output = dumps w invoice_data indent False
                in case (if truthy (output a) then output a else None) of
                     Some path \<Rightarrow>
                       (case write_text w path json_output of
                          Some e \<Rightarrow> (Inl e, ev1 @ ev2)
                        | None \<Rightarrow>
                            (Inr (),
                             ev1 @ ev2 @
                             [WriteFile path json_output,
                              Print (py ''\<newline>Success! Invoice data saved to: '' @ path)]))
                   | None \<Rightarrow>
                       (Inr (),
                        ev1 @ ev2 @
                        [Print (newline # replicate 50 (ch CHR ''='')),
                         Print (py ''INVOICE DATA (JSON)''),
                         Print (replicate 50 (ch CHR ''='')),
                         Print json_output]))))"

text \<open>
  \<open>main\<close>, as the exit status of the process and its effects: status 1 and a message
  on the error stream when the path is not a file, before anything else is done;
  otherwise the \<open>try\<close> block, with status 1 and the message of the exception when it
  raises.
\<close>

definition main :: "world \<Rightarrow> args \<Rightarrow> int \<times> event list" where
  "main w a =
     (if \<not> isfile w (pdf_file a)
      then (1, [PrintErr (py ''Error: PDF file not found: '' @ pdf_file a)])
      else
        (case main_try w a of
           (Inl e, ev) \<Rightarrow> (1, ev @ [PrintErr (py ''\<newline>Error: '' @ msg e)])
         | (Inr _, ev) \<Rightarrow> (0, ev)))"


section \<open>The specification's wording, for comparison\<close>

text \<open>
  The page texts joined as the specification words it: consecutive segments are
  separated by one blank line, that is by two line breaks.
\<close>

fun blank_line_joined :: "pystr list \<Rightarrow> pystr" where
  "blank_line_joined [] = []"
| "blank_line_joined [t] = t"
| "blank_line_joined (t # t' # ts) = t @ [newline, newline] @ blank_line_joined (t' # ts)"

text \<open>
  A line that names a language tag: not empty, and made of letters, digits and the
  signs \<open>+ - # . _\<close> only (as in \<open>json\<close>, \<open>json5\<close>, \<open>c++\<close>).
\<close>

definition tag_char :: "nat \<Rightarrow> bool" where
  "tag_char c \<longleftrightarrow>
     (48 \<le> c \<and> c \<le> 57) \<or> (65 \<le> c \<and> c \<le> 90) \<or> (97 \<le> c \<and> c \<le> 122) \<or>
     c = 43 \<or> c = 45 \<or> c = 35 \<or> c = 46 \<or> c = 95"

definition names_language_tag :: "pystr \<Rightarrow> bool" where
  "names_language_tag line \<longleftrightarrow> line \<noteq> [] \<and> list_all tag_char line"

text \<open>
  The post-processing as the specification words it: trim; when the text begins with
  the fence marker, drop the first and the last line, and when the first remaining line
  names a language tag, drop that line too.
\<close>

definition spec_postprocess :: "pystr \<Rightarrow> pystr" where
  "spec_postprocess content =
     (let t = py_strip content in
      if startswith t (py ''```'') then
        (let inner = butlast (tl (py_split newline t))
         in if inner \<noteq> [] \<and> names_language_tag (hd inner)
            then py_join [newline] (tl inner)
            else py_join [newline] inner)
      else t)"


section \<open>A mock world for concrete runs\<close>

text \<open>
  One PDF, \<open>invoice.pdf\<close>, with the given pages; a key in the environment; a service
  that answers every request with the given reply; the reference decoder; an encoder
  that gives the same text for every value; an output file that can always be written.
\<close>

definition mock_world ::
  "page list \<Rightarrow> (openai_error \<times> pystr) + response \<Rightarrow> pystr \<Rightarrow> world" where
  "mock_world pages reply encoded =
     \<lparr>isfile = (\<lambda>p. p = py ''invoice.pdf''),
      environ = [py ''OPENAI_API_KEY'' \<mapsto> py ''sk-test''],
      dotenv = Map.empty,
      pdf_reader = (\<lambda>p. Inr pages),
      create = (\<lambda>key req. reply),
      loads = json_loads,
      dumps = (\<lambda>v indent ensure_ascii. encoded),
      write_text = (\<lambda>p c. None)\<rparr>"

definition mock_args :: args where
  "mock_args =
     \<lparr>pdf_file = py ''invoice.pdf'', output = None, pretty = True, api_key = None\<rparr>"


section \<open>Facts about slices, joins and the fence marker\<close>

lemma py_slice_inner: "py_slice xs (Some 1) (Some (- 1)) = butlast (tl xs)"
  by (cases xs) (auto simp: py_slice_def slice_index_def Let_def butlast_conv_take min_def)

lemma py_slice_from: "py_slice xs (Some 4) None = drop 4 xs"
  by (simp add: py_slice_def slice_index_def Let_def min_def)

lemma fence_not_json: "startswith t (py ''```'') \<Longrightarrow> \<not> startswith t (py ''json'')"
  by (cases t) (auto simp: startswith_def py_def)

lemma foldl_join:
  "foldl (\<lambda>acc y. acc @ sep @ y) x rest = x @ concat (map (\<lambda>y. sep @ y) rest)"
  by (induction rest arbitrary: x) simp_all

lemma py_join_Cons: "py_join sep (x # rest) = x @ concat (map (\<lambda>y. sep @ y) rest)"
  by (simp add: py_join_def foldl_join)

lemma blank_line_joined_Cons:
  "blank_line_joined (t # ts) = t @ concat (map (\<lambda>y. [newline, newline] @ y) ts)"
  by (induction ts arbitrary: t) simp_all

lemma py_join_blank_line: "py_join [newline, newline] ts = blank_line_joined ts"
proof (cases ts)
  case Nil
  then show ?thesis by (simp add: py_join_def)
next
  case (Cons t rest)
  then show ?thesis by (simp only: py_join_Cons blank_line_joined_Cons)
qed

lemma py_strip_space_Cons: "isspace c \<Longrightarrow> py_strip (c # s) = py_strip s"
  by (simp add: py_strip_def)

text \<open>
  When the first of the remaining lines is exactly \<open>json\<close>, removing the four
  characters and stripping removes the whole line.
\<close>

lemma tag_line_dropped:
  assumes "inner \<noteq> []" and "hd inner = py ''json''"
  shows "startswith (py_join [newline] inner) (py ''json'')"
    and "py_strip (drop 4 (py_join [newline] inner)) = py_strip (py_join [newline] (tl inner))"
proof -
  obtain rest where inner: "inner = py ''json'' # rest"
    using assms by (cases inner) auto
  show "startswith (py_join [newline] inner) (py ''json'')"
    by (simp add: inner py_join_Cons startswith_def py_def)
  show "py_strip (drop 4 (py_join [newline] inner)) = py_strip (py_join [newline] (tl inner))"
  proof (cases rest)
    case Nil
    then show ?thesis by (simp add: inner py_join_Cons py_def py_join_def)
  next
    case (Cons l ls)
    have "drop 4 (py_join [newline] inner) = newline # py_join [newline] (l # ls)"
      by (simp add: inner Cons py_join_Cons py_def)
    moreover have "isspace newline" by (simp add: isspace_def newline_def)
    ultimately show ?thesis by (simp add: py_strip_space_Cons inner Cons)
  qed
qed

text \<open>The definitions that evaluate the string operations on a literal.\<close>

lemmas str_eval =
  postprocess_def spec_postprocess_def py_def py_strip_def isspace_def startswith_def
  newline_def py_join_def py_slice_def slice_index_def Let_def names_language_tag_def
  tag_char_def


section \<open>The reference decoder never runs out of nested calls\<close>


lemma consumed_error [simp]: "consumed s (Inl (decode_error m))"
  by (simp add: consumed_def decode_error_def)

lemma consumed_Inr [simp]: "consumed s (Inr (v, r)) \<longleftrightarrow> length r < length s"
  by (simp add: consumed_def)















section \<open>Evaluating the reference decoder\<close>

text \<open>The scanner's equations for a bound written as a numeral.\<close>

lemmas scan_once_numeral =
  scan_once.simps(2) [of "pred_numeral k" for k, folded numeral_eq_Suc]

lemmas parse_array_numeral =
  parse_array.simps(2) [of "pred_numeral k" for k, folded numeral_eq_Suc]

lemmas parse_object_numeral =
  parse_object.simps(2) [of "pred_numeral k" for k, folded numeral_eq_Suc]

lemmas json_eval =
  json_loads_def scan_once_numeral parse_array_numeral parse_object_numeral skip_ws_def
  startswith_def match_number_def int_part_def frac_part_def exp_part_def isdigit_def
  digits_value_def ch_def py_def decode_error_def backslash_def decode_uXXXX_def
  hex_value_def Let_def



section \<open>The decoder receives the post-processed completion\<close>


text \<open>
  What the decoder receives is the post-processed content of the first choice, and its
  value is returned as it is.
\<close>

lemma parse_invoice_to_json_decoded:
  assumes "create w (self_api_key self) (completion_request pdf_text) = Inr resp"
    and "choices resp = Some content # cs"
  shows "fst (parse_invoice_to_json w self pdf_text) =
           (case loads w (postprocess content) of
              Inl e \<Rightarrow> Inl (parse_handler e)
            | Inr v \<Rightarrow> Inr v)"
  using assms by (simp add: parse_invoice_to_json_def Let_def)


section \<open>Post-processing: fenced completions\<close>

text \<open>
  Claim C10. A completion that, once stripped, begins with the fence marker but has two
  lines or fewer is left as stripped: no line is dropped and no tag is removed, and
  this text is what the extractor hands to the JSON decoder.
\<close>

theorem postprocess_short_unchanged:
  assumes "startswith (py_strip r) (py ''```'')"
    and "length (py_split newline (py_strip r)) \<le> 2"
  shows "postprocess r = py_strip r \<and>
         (create w (self_api_key self) (completion_request pdf_text) = Inr resp \<and>
          choices resp = Some r # cs \<longrightarrow>
            fst (parse_invoice_to_json w self pdf_text) =
              (case loads w (py_strip r) of
                 Inl e \<Rightarrow> Inl (parse_handler e)
               | Inr v \<Rightarrow> Inr v))"
proof -
  have "postprocess r = py_strip r"
    using assms fence_not_json [OF assms(1)] by (simp add: postprocess_def Let_def)
  then show ?thesis
    using parse_invoice_to_json_decoded [of w self pdf_text resp r cs] by simp
qed

theorem postprocess_short_unchanged_witness:
  "startswith (py_strip (py '' ```json {}\<newline>``` '')) (py ''```'') \<and>
   length (py_split newline (py_strip (py '' ```json {}\<newline>``` ''))) = 2 \<and>
   postprocess (py '' ```json {}\<newline>``` '') = py ''```json {}\<newline>```'' \<and>
   fst (parse_invoice_to_json
          (mock_world [] (Inr \<lparr>choices = [Some (py '' ```json {}\<newline>``` '')]\<rparr>) [])
          \<lparr>self_api_key = py ''sk-test''\<rparr> (py ''Factura 7'')) =
     Inl (parse_handler (decode_error ''Expecting value''))"
proof -
  let ?r = "py '' ```json {}\<newline>``` ''"
  let ?resp = "\<lparr>choices = [Some ?r]\<rparr>"
  let ?w = "mock_world [] (Inr ?resp) []"
  let ?self = "\<lparr>self_api_key = py ''sk-test''\<rparr>"
  have a: "startswith (py_strip ?r) (py ''```'')"
    by (simp add: str_eval)
  have b: "length (py_split newline (py_strip ?r)) = 2"
    by (simp add: str_eval)
  have c: "py_strip ?r = py ''```json {}\<newline>```''"
    by (simp add: str_eval)
  have d: "json_loads (py ''```json {}\<newline>```'') = Inl (decode_error ''Expecting value'')"
    by (simp add: json_eval)
  have e: "create ?w (self_api_key ?self) (completion_request (py ''Factura 7'')) = Inr ?resp \<and>
           choices ?resp = Some ?r # []"
    by (simp add: mock_world_def)
  have f: "loads ?w = json_loads" by (simp add: mock_world_def)
  from a b have "length (py_split newline (py_strip ?r)) \<le> 2" by simp
  from postprocess_short_unchanged [OF a this, of ?w ?self "py ''Factura 7''" ?resp "[]"]
    a b c d e f
  show ?thesis by simp
qed

text \<open>
  Claim C1, as the specification words it, fails on two inputs. An unclosed fence of
  two lines keeps both lines, where the specification drops them. After a fence of four
  lines whose second line is \<open>json5\<close>, the code removes the four characters \<open>json\<close> and
  leaves the \<open>5\<close>: neither the line dropped nor the line kept.
\<close>

theorem postprocess_spec_counterexample:
  "postprocess (py ''```json\<newline>{}'') \<noteq> spec_postprocess (py ''```json\<newline>{}'') \<and>
   postprocess (py ''```\<newline>json5\<newline>{}\<newline>```'') \<noteq>
     spec_postprocess (py ''```\<newline>json5\<newline>{}\<newline>```'') \<and>
   postprocess (py ''```\<newline>json5\<newline>{}\<newline>```'') = py ''5\<newline>{}''"
  by (simp add: str_eval)

text \<open>
  Claim C1, amended. When the stripped completion begins with the fence marker and has
  more than two lines, the first and the last line are dropped; when the remaining text
  begins with the four characters \<open>json\<close>, these are removed and the text is stripped
  again, and otherwise the remaining text stays as it is. In particular a first
  remaining line that is exactly \<open>json\<close> is dropped as a whole.
\<close>

theorem postprocess_fenced:
  assumes "startswith (py_strip r) (py ''```'')"
    and "2 < length (py_split newline (py_strip r))"
    and "inner = butlast (tl (py_split newline (py_strip r)))"
  shows "postprocess r =
           (if startswith (py_join [newline] inner) (py ''json'')
            then py_strip (drop 4 (py_join [newline] inner))
            else py_join [newline] inner) \<and>
         (hd inner = py ''json'' \<longrightarrow>
            postprocess r = py_strip (py_join [newline] (tl inner)))"
proof -
  have eq: "postprocess r =
           (if startswith (py_join [newline] inner) (py ''json'')
            then py_strip (drop 4 (py_join [newline] inner))
            else py_join [newline] inner)"
    using assms by (simp add: postprocess_def Let_def py_slice_inner py_slice_from)
  have "inner \<noteq> []"
    using assms(2,3) by (cases "py_split newline (py_strip r)") (auto simp: butlast_conv_take)
  with eq tag_line_dropped [of inner] show ?thesis by simp
qed

theorem postprocess_fenced_witness:
  "startswith (py_strip (py ''```\<newline>json\<newline>{}\<newline>```'')) (py ''```'') \<and>
   2 < length (py_split newline (py_strip (py ''```\<newline>json\<newline>{}\<newline>```''))) \<and>
   hd (butlast (tl (py_split newline
        (py_strip (py ''```\<newline>json\<newline>{}\<newline>```''))))) = py ''json'' \<and>
   postprocess (py ''```\<newline>json\<newline>{}\<newline>```'') = py ''{}''"
proof -
  let ?r = "py ''```\<newline>json\<newline>{}\<newline>```''"
  have a: "startswith (py_strip ?r) (py ''```'')" by (simp add: str_eval)
  have b: "2 < length (py_split newline (py_strip ?r))" by (simp add: str_eval)
  have c: "butlast (tl (py_split newline (py_strip ?r))) = [py ''json'', py ''{}'']"
    by (simp add: str_eval)
  have d: "py_strip (py_join [newline] [py ''{}'']) = py ''{}''" by (simp add: str_eval)
  from postprocess_fenced [OF a b refl, THEN conjunct2] c d a b show ?thesis by simp
qed


section \<open>Text extraction\<close>

lemma extract_pages_all: "extract_pages (map Inr ts) acc = Inr (acc @ ts)"
  by (induction ts arbitrary: acc) simp_all


text \<open>
  Claim C4. For a PDF whose pages all yield a text, the extractor returns these texts
  in page order, consecutive ones separated by one blank line (two line breaks). The
  texts need not even be non-empty.
\<close>

theorem extract_text_joined:
  assumes "pdf_reader w pdf_path = Inr (map Inr ts)"
  shows "fst (extract_text_from_pdf w pdf_path) = Inr (blank_line_joined ts)"
  using assms by (simp add: extract_text_from_pdf_def extract_pages_all py_join_blank_line)

theorem extract_text_joined_witness:
  "fst (extract_text_from_pdf
         (mock_world [Inr (py ''Factura 7''), Inr (py ''Total: 10''), Inr (py ''Gracias'')]
            (Inr \<lparr>choices = []\<rparr>) [])
         (py ''invoice.pdf'')) =
   Inr (py ''Factura 7\<newline>\<newline>Total: 10\<newline>\<newline>Gracias'')"
proof -
  let ?ts = "[py ''Factura 7'', py ''Total: 10'', py ''Gracias'']"
  let ?w = "mock_world (map Inr ?ts) (Inr \<lparr>choices = []\<rparr>) []"
  have "pdf_reader ?w (py ''invoice.pdf'') = Inr (map Inr ?ts)"
    by (simp add: mock_world_def)
  from extract_text_joined [OF this] show ?thesis
    by (simp add: py_def newline_def)
qed


section \<open>Structured extraction\<close>



text \<open>
  Claim C6. For the response that wraps \<open>{"total": 10}\<close> in a fence tagged \<open>json\<close>,
  the post-processor leaves exactly the text \<open>{"total": 10}\<close>, which decodes to the
  object with the one member \<open>total\<close> of value 10; this object is what the extractor
  returns when the service gives that response.
\<close>

theorem fenced_total_example:
  "postprocess (py ''```json\<newline>{\"total\": 10}\<newline>```'') = py ''{\"total\": 10}'' \<and>
   json_loads (postprocess (py ''```json\<newline>{\"total\": 10}\<newline>```'')) =
     Inr (JObj [(py ''total'', JInt 10)]) \<and>
   fst (parse_invoice_to_json
          (mock_world []
             (Inr \<lparr>choices = [Some (py ''```json\<newline>{\"total\": 10}\<newline>```'')]\<rparr>) [])
          \<lparr>self_api_key = py ''sk-test''\<rparr> (py ''Factura 7'')) =
     Inr (JObj [(py ''total'', JInt 10)])"
proof -
  have a: "postprocess (py ''```json\<newline>{\"total\": 10}\<newline>```'') = py ''{\"total\": 10}''"
    by (simp add: str_eval)
  have b: "json_loads (py ''{\"total\": 10}'') = Inr (JObj [(py ''total'', JInt 10)])"
    by (simp add: json_eval)
  have c: "fst (parse_invoice_to_json
          (mock_world []
             (Inr \<lparr>choices = [Some (py ''```json\<newline>{\"total\": 10}\<newline>```'')]\<rparr>) [])
          \<lparr>self_api_key = py ''sk-test''\<rparr> (py ''Factura 7'')) =
        (case json_loads (postprocess (py ''```json\<newline>{\"total\": 10}\<newline>```'')) of
           Inl e \<Rightarrow> Inl (parse_handler e)
         | Inr v \<Rightarrow> Inr v)"
    by (simp add: parse_invoice_to_json_def Let_def mock_world_def)
  from a b c show ?thesis by simp
qed


section \<open>The scan operation and the command line\<close>

lemma init_events_no_calls:
  "remote_calls (snd (init w k)) = 0" "extractions (snd (init w k)) = 0"
  by (simp_all add: init_def Let_def remote_calls_def extractions_def split: option.splits)

lemma init_missing_key:
  assumes "\<not> truthy k"
    and "\<not> truthy (load_dotenv (dotenv w) (environ w) (py ''OPENAI_API_KEY''))"
  shows "init w k = (Inl key_not_found, [LoadDotenv])"
proof -
  have "\<not> truthy (py_or k (load_dotenv (dotenv w) (environ w) (py ''OPENAI_API_KEY'')))"
    using assms by (simp add: py_or_def)
  then show ?thesis
    by (cases "py_or k (load_dotenv (dotenv w) (environ w) (py ''OPENAI_API_KEY''))")
       (simp_all add: init_def Let_def)
qed


lemma scan_invoice_blank:
  assumes "fst (extract_text_from_pdf w pdf_path) = Inr pdf_text"
    and "py_strip pdf_text = []"
  shows "fst (scan_invoice w self pdf_path) = Inl no_text"
    and "remote_calls (snd (scan_invoice w self pdf_path)) = 0"
  using assms
  by (simp_all add: scan_invoice_def Let_def remote_calls_def extract_text_from_pdf_def
      split: prod.splits sum.splits)

lemma main_no_text:
  assumes "isfile w (pdf_file a)"
    and "fst (extract_text_from_pdf w (pdf_file a)) = Inr pdf_text"
    and "py_strip pdf_text = []"
  shows "fst (main w a) = 1 \<and> remote_calls (snd (main w a)) = 0"
proof (cases "init w (api_key a)")
  case (Pair r ev1)
  have ev1: "remote_calls ev1 = 0"
    using init_events_no_calls(1) [of w "api_key a"] Pair by simp
  show ?thesis
  proof (cases r)
    case (Inl e)
    with Pair ev1 assms(1) show ?thesis
      by (simp add: main_def main_try_def remote_calls_def)
  next
    case (Inr self)
    obtain ev2 where "scan_invoice w self (pdf_file a) = (Inl no_text, ev2)"
      and "remote_calls ev2 = 0"
      using scan_invoice_blank [OF assms(2,3), of self]
      by (cases "scan_invoice w self (pdf_file a)") simp
    with Pair Inr ev1 assms(1) show ?thesis
      by (simp add: main_def main_try_def remote_calls_def)
  qed
qed

text \<open>
  Claim C2. When the text extracted from the PDF is empty or consists of whitespace
  only, the scan operation fails with the error that no text could be extracted, and
  its run contains no call of the remote service; run from the command line on that
  file, the program exits with status 1, again without any call of the service.
\<close>

theorem scan_invoice_no_text:
  assumes "fst (extract_text_from_pdf w pdf_path) = Inr pdf_text"
    and "py_strip pdf_text = []"
  shows "fst (scan_invoice w self pdf_path) = Inl no_text \<and>
         remote_calls (snd (scan_invoice w self pdf_path)) = 0 \<and>
         (isfile w pdf_path \<and> pdf_file a = pdf_path \<longrightarrow>
            fst (main w a) = 1 \<and> remote_calls (snd (main w a)) = 0)"
  using scan_invoice_blank [OF assms, of self] main_no_text [of w a pdf_text] assms
  by auto

theorem scan_invoice_no_text_witness:
  "py_strip (py ''\<newline>\<newline>\<newline>\<newline> '') = [] \<and>
   fst (scan_invoice (mock_world [Inr [], Inr [], Inr (py '' '')] (Inr \<lparr>choices = []\<rparr>) [])
          \<lparr>self_api_key = py ''sk-test''\<rparr> (py ''invoice.pdf'')) = Inl no_text \<and>
   remote_calls
     (snd (scan_invoice
             (mock_world [Inr [], Inr [], Inr (py '' '')] (Inr \<lparr>choices = []\<rparr>) [])
             \<lparr>self_api_key = py ''sk-test''\<rparr> (py ''invoice.pdf''))) = 0 \<and>
   fst (main (mock_world [Inr [], Inr [], Inr (py '' '')] (Inr \<lparr>choices = []\<rparr>) [])
          mock_args) = 1"
proof -
  let ?w = "mock_world [Inr [], Inr [], Inr (py '' '')] (Inr \<lparr>choices = []\<rparr>) []"
  have a: "fst (extract_text_from_pdf ?w (py ''invoice.pdf'')) =
             Inr (py ''\<newline>\<newline>\<newline>\<newline> '')"
    by (simp add: extract_text_from_pdf_def mock_world_def py_join_def py_def newline_def)
  have b: "py_strip (py ''\<newline>\<newline>\<newline>\<newline> '') = []"
    by (simp add: py_strip_def py_def isspace_def)
  have c: "isfile ?w (py ''invoice.pdf'') \<and> pdf_file mock_args = py ''invoice.pdf''"
    by (simp add: mock_world_def mock_args_def)
  from scan_invoice_no_text [OF a b, of "\<lparr>self_api_key = py ''sk-test''\<rparr>" mock_args] b c
  show ?thesis by simp
qed

text \<open>
  Claim C7. When the input path is not an existing file, the program exits with status
  1 and its only effect is the file-not-found message on the error stream: the PDF is
  not opened and the remote service is not called.
\<close>

theorem main_missing_file:
  assumes "\<not> isfile w (pdf_file a)"
  shows "fst (main w a) = 1 \<and>
         snd (main w a) = [PrintErr (py ''Error: PDF file not found: '' @ pdf_file a)] \<and>
         extractions (snd (main w a)) = 0 \<and>
         remote_calls (snd (main w a)) = 0"
  using assms by (simp add: main_def extractions_def remote_calls_def)

theorem main_missing_file_witness:
  "\<not> isfile (mock_world [] (Inr \<lparr>choices = []\<rparr>) []) (py ''missing.pdf'') \<and>
   main (mock_world [] (Inr \<lparr>choices = []\<rparr>) [])
     (mock_args\<lparr>pdf_file := py ''missing.pdf''\<rparr>) =
     (1, [PrintErr (py ''Error: PDF file not found: missing.pdf'')])"
proof -
  let ?w = "mock_world [] (Inr \<lparr>choices = []\<rparr>) []"
  let ?a = "mock_args\<lparr>pdf_file := py ''missing.pdf''\<rparr>"
  have a: "\<not> isfile ?w (pdf_file ?a)"
    by (simp add: mock_world_def mock_args_def py_def)
  have b: "py ''Error: PDF file not found: '' @ py ''missing.pdf'' =
           py ''Error: PDF file not found: missing.pdf''"
    by (simp add: py_def)
  from main_missing_file [OF a] a b show ?thesis
    by (simp add: prod_eq_iff)
qed

text \<open>
  Claim C8. When neither the \<open>--api-key\<close> argument nor the variable \<open>OPENAI_API_KEY\<close>
  of the environment (as \<open>load_dotenv()\<close> leaves it) gives a non-empty key, the
  constructor raises the \<open>ValueError\<close> of the missing key right after reading the
  environment, without creating the client; the program then exits with status 1
  having neither opened the PDF nor called the service.
\<close>

theorem init_without_key:
  assumes "\<not> truthy k"
    and "\<not> truthy (load_dotenv (dotenv w) (environ w) (py ''OPENAI_API_KEY''))"
  shows "init w k = (Inl key_not_found, [LoadDotenv]) \<and>
         cls key_not_found = ValueError \<and>
         (isfile w (pdf_file a) \<and> api_key a = k \<longrightarrow>
            main w a = (1, [LoadDotenv, PrintErr (py ''\<newline>Error: '' @ msg key_not_found)]))"
  using init_missing_key [OF assms]
  by (auto simp: key_not_found_def main_def main_try_def)

theorem init_without_key_witness:
  "init (mock_world [] (Inr \<lparr>choices = []\<rparr>) []\<lparr>environ := Map.empty\<rparr>) (Some []) =
     (Inl key_not_found, [LoadDotenv]) \<and>
   fst (main (mock_world [] (Inr \<lparr>choices = []\<rparr>) []\<lparr>environ := Map.empty\<rparr>)
          (mock_args\<lparr>api_key := Some []\<rparr>)) = 1"
proof -
  let ?w = "mock_world [] (Inr \<lparr>choices = []\<rparr>) []\<lparr>environ := Map.empty\<rparr>"
  let ?a = "mock_args\<lparr>api_key := Some []\<rparr>"
  have a: "\<not> truthy (Some [])" by simp
  have b: "\<not> truthy (load_dotenv (dotenv ?w) (environ ?w) (py ''OPENAI_API_KEY''))"
    by (simp add: mock_world_def load_dotenv_def)
  have c: "isfile ?w (pdf_file ?a) \<and> api_key ?a = Some []"
    by (simp add: mock_world_def mock_args_def)
  from init_without_key [OF a b, of ?a] c show ?thesis by simp
qed



end
